theory Spec2Isabelle
  imports Main
begin

section \<open>Python values used by \<open>content_analysis.py\<close>\<close>

text \<open>
  A Python \<open>str\<close> is modelled by its UTF-8 encoding, a \<open>string\<close> (list of bytes).
  Every pattern the module searches for is ASCII, and an ASCII byte never occurs inside
  the encoding of another code point, so prefix tests, replacement and splitting agree
  on bytes and on code points.

  An exception is a value of \<open>py_error\<close>; a function that may raise returns
  \<open>py_error + 'a\<close> with \<open>Inl\<close> for the exception.
\<close>

datatype py_error =
    KeyError | AttributeError | ValueError | NameError | IndexError
  | FileNotFoundError | OSError

text \<open>A step that may raise, followed by what is done with its result.\<close>

definition try_bind :: "py_error + 'a \<Rightarrow> ('a \<Rightarrow> py_error + 'b) \<Rightarrow> py_error + 'b" where
  "try_bind r f = (case r of Inl e \<Rightarrow> Inl e | Inr x \<Rightarrow> f x)"

text \<open>
  A cell of a dataframe column is a \<open>str\<close> or some other object (pandas reads an
  empty CSV cell as the float NaN); the other objects have no \<open>startswith\<close>.
  A dataframe maps column labels to columns; \<open>data['Text Title']\<close> raises
  \<open>KeyError\<close> for a label that is absent.
\<close>

datatype cell = Str string | NotStr

type_synonym dataframe = "string \<rightharpoonup> cell list"

definition startswith :: "string \<Rightarrow> string \<Rightarrow> bool" where
  "startswith s p = (take (length p) s = p)"

definition endswith :: "string \<Rightarrow> string \<Rightarrow> bool" where
  "endswith s p = (length p \<le> length s \<and> drop (length s - length p) s = p)"

text \<open>\<open>s.replace(old, new, 1)\<close>: the leftmost occurrence of \<open>old\<close> is replaced.\<close>

fun str_replace1 :: "string \<Rightarrow> string \<Rightarrow> string \<Rightarrow> string" where
  "str_replace1 [] old new = (if old = [] then new else [])"
| "str_replace1 (c # cs) old new =
     (if startswith (c # cs) old then new @ drop (length old) (c # cs)
      else c # str_replace1 cs old new)"

section \<open>Query and visit extraction\<close>

text \<open>
  The comprehension \<open>[s.replace(old, "", 1) for s in column if s.startswith(pre)]\<close>.
  It visits every cell before the slice is taken, so one cell that is not a \<open>str\<close>
  raises \<open>AttributeError\<close>.
\<close>

fun stripped_titles :: "string \<Rightarrow> string \<Rightarrow> cell list \<Rightarrow> py_error + string list" where
  "stripped_titles pre old [] = Inr []"
| "stripped_titles pre old (NotStr # cs) = Inl AttributeError"
| "stripped_titles pre old (Str s # cs) =
     (case stripped_titles pre old cs of
        Inl e \<Rightarrow> Inl e
      | Inr r \<Rightarrow> Inr (if startswith s pre then str_replace1 s old [] # r else r))"

definition extract_search_queries :: "dataframe \<Rightarrow> py_error + string list" where
  "extract_search_queries data =
     (case data ''Text Title'' of
        None \<Rightarrow> Inl KeyError
      | Some col \<Rightarrow>
          (case stripped_titles ''Searched'' ''Searched for '' col of
             Inl e \<Rightarrow> Inl e
           | Inr qs \<Rightarrow> Inr (take 1000 qs)))"

definition extract_visited_sites :: "dataframe \<Rightarrow> py_error + string list" where
  "extract_visited_sites data =
     (case data ''Text Title'' of
        None \<Rightarrow> Inl KeyError
      | Some col \<Rightarrow>
          (case stripped_titles ''Visited'' ''Visited '' col of
             Inl e \<Rightarrow> Inl e
           | Inr vs \<Rightarrow> Inr (drop (length vs - 100) vs)))"

section \<open>Homepage normalisation\<close>

text \<open>
  \<open>str.strip()\<close> removes the code points Python counts as whitespace from both ends.
  \<open>py_whitespace\<close> lists their UTF-8 encodings: U+0009 to U+000D, U+001C to U+0020,
  U+0085, U+00A0, U+1680, U+2000 to U+200A, U+2028, U+2029, U+202F, U+205F and U+3000.
\<close>

definition py_whitespace :: "string list" where
  "py_whitespace =
     [[CHR 0x09], [CHR 0x0A], [CHR 0x0B], [CHR 0x0C], [CHR 0x0D],
      [CHR 0x1C], [CHR 0x1D], [CHR 0x1E], [CHR 0x1F], [CHR 0x20],
      [CHR 0xC2, CHR 0x85], [CHR 0xC2, CHR 0xA0], [CHR 0xE1, CHR 0x9A, CHR 0x80],
      [CHR 0xE2, CHR 0x80, CHR 0x80], [CHR 0xE2, CHR 0x80, CHR 0x81],
      [CHR 0xE2, CHR 0x80, CHR 0x82], [CHR 0xE2, CHR 0x80, CHR 0x83],
      [CHR 0xE2, CHR 0x80, CHR 0x84], [CHR 0xE2, CHR 0x80, CHR 0x85],
      [CHR 0xE2, CHR 0x80, CHR 0x86], [CHR 0xE2, CHR 0x80, CHR 0x87],
      [CHR 0xE2, CHR 0x80, CHR 0x88], [CHR 0xE2, CHR 0x80, CHR 0x89],
      [CHR 0xE2, CHR 0x80, CHR 0x8A], [CHR 0xE2, CHR 0x80, CHR 0xA8],
      [CHR 0xE2, CHR 0x80, CHR 0xA9], [CHR 0xE2, CHR 0x80, CHR 0xAF],
      [CHR 0xE2, CHR 0x81, CHR 0x9F], [CHR 0xE3, CHR 0x80, CHR 0x80]]"

text \<open>Removing, from the front, every leading sequence that is in the table \<open>ws\<close>.\<close>

fun lstrip_with :: "string list \<Rightarrow> string \<Rightarrow> string" where
  "lstrip_with ws [] = []"
| "lstrip_with ws (c # cs) =
     (case find (\<lambda>w. startswith (c # cs) w) ws of
        None \<Rightarrow> c # cs
      | Some w \<Rightarrow> lstrip_with ws (drop (length w - 1) cs))"

definition str_strip :: "string \<Rightarrow> string" where
  "str_strip s = rev (lstrip_with (map rev py_whitespace) (rev (lstrip_with py_whitespace s)))"

text \<open>
  \<open>re.split(r' \- | \| ', text)\<close>: the text is scanned from the left; where one of the
  two separators starts, the current segment ends and the scan goes on behind the
  separator. The result always has at least one segment.
\<close>

definition separator_at :: "string \<Rightarrow> bool" where
  "separator_at s = (startswith s '' - '' \<or> startswith s '' | '')"

fun re_split :: "string \<Rightarrow> string list" where
  "re_split [] = [[]]"
| "re_split (c # cs) =
     (if separator_at (c # cs) then [] # re_split (drop 2 cs)
      else (let ps = re_split cs in (c # hd ps) # tl ps))"

definition is_url :: "string \<Rightarrow> bool" where
  "is_url s = (startswith s ''http://'' \<or> startswith s ''https://'')"

text \<open>\<open>parts[-1]\<close> raises \<open>IndexError\<close> on an empty list.\<close>

definition extract_homepage_alt_form :: "string \<Rightarrow> py_error + string option" where
  "extract_homepage_alt_form s =
     (let parts = re_split s in
      case parts of
        [] \<Rightarrow> Inl IndexError
      | _ # _ \<Rightarrow>
          (let result = str_strip (last parts) in
           if endswith result ''...'' \<or> is_url result \<or> length parts = 1 then Inr None
           else Inr (Some result)))"

text \<open>
  The libraries the module calls are parameters of the model. \<open>urlparse_netloc url\<close>
  is \<open>urlparse(url).netloc\<close>, or the exception \<open>urlparse\<close> raises (the standard library
  raises \<open>ValueError\<close> for unmatched square brackets in the network location);
  \<open>tldextract url\<close> is the result of \<open>tldextract.extract(url)\<close>, which rests on the public
  suffix list; \<open>spacy_load\<close> is the outcome of \<open>spacy.load("en_core_web_sm")\<close>, a tokenizer
  from a text to its tokens, or the exception when the model is not installed;
  \<open>str_lower\<close> is \<open>str.lower\<close>; \<open>read_csv\<close> parses the bytes of a file as
  \<open>pandas.read_csv\<close> does; \<open>visited_csv\<close> and \<open>frequency_csv\<close> are what
  \<open>DataFrame.to_csv\<close> writes for the two output tables.
\<close>

record extract_result =
  ext_subdomain :: string
  ext_domain :: string
  ext_suffix :: string

record token =
  tok_text :: string
  is_stop :: bool
  is_punct :: bool

record libs =
  urlparse_netloc :: "string \<Rightarrow> py_error + string"
  tldextract :: "string \<Rightarrow> extract_result"
  spacy_load :: "py_error + (string \<Rightarrow> token list)"
  str_lower :: "string \<Rightarrow> string"
  read_csv :: "string \<Rightarrow> py_error + dataframe"
  visited_csv :: "(string \<times> string option) list \<Rightarrow> string"
  frequency_csv :: "string list \<times> nat list list \<Rightarrow> string"

text \<open>
  The network location is only printed; the value returned is built from the result of
  \<open>tldextract\<close> alone. An exception of \<open>urlparse\<close> is not caught.
\<close>

definition extract_homepage_from_url :: "libs \<Rightarrow> string \<Rightarrow> py_error + string" where
  "extract_homepage_from_url L url =
     (case urlparse_netloc L url of
        Inl e \<Rightarrow> Inl e
      | Inr netloc \<Rightarrow>
          (let extracted = tldextract L url
           in Inr (ext_domain extracted @ ''.'' @ ext_suffix extracted)))"

definition extract_homepage_main :: "libs \<Rightarrow> string \<Rightarrow> py_error + string option" where
  "extract_homepage_main L url =
     (if \<not> is_url url then extract_homepage_alt_form url
      else (case extract_homepage_from_url L url of
              Inl e \<Rightarrow> Inl e
            | Inr d \<Rightarrow> Inr (Some d)))"

section \<open>Tokens and their counts\<close>

definition process_texts :: "libs \<Rightarrow> string list \<Rightarrow> (string \<Rightarrow> token list) \<Rightarrow> string list" where
  "process_texts L texts nlp =
     concat (map (\<lambda>doc. map (\<lambda>k. str_lower L (tok_text k))
                    (filter (\<lambda>k. \<not> is_stop k \<and> \<not> is_punct k \<and> str_strip (tok_text k) \<noteq> [])
                       (nlp doc)))
               texts)"

text \<open>
  \<open>collections.Counter(xs)\<close>: each element with the number of its occurrences, in the
  order of first occurrence.
\<close>

fun counter_add :: "'a \<Rightarrow> ('a \<times> nat) list \<Rightarrow> ('a \<times> nat) list" where
  "counter_add x [] = [(x, 1)]"
| "counter_add x ((y, n) # r) = (if x = y then (y, n + 1) # r else (y, n) # counter_add x r)"

definition Counter :: "'a list \<Rightarrow> ('a \<times> nat) list" where
  "Counter xs = foldl (\<lambda>c x. counter_add x c) [] xs"

section \<open>The frequency table\<close>

text \<open>
  The first pandas call of line 130, \<open>pd.DataFrame(counted_tokens, columns=[...])\<close>, as
  pandas documents it: when the data is a dict, its keys are column labels and
  \<open>columns\<close> selects among them. A selected entry of the counter is a scalar, and a frame
  of scalars without an index raises \<open>ValueError\<close>; when no key is selected the frame has
  the columns asked for and no rows. The result is the column labels and the rows.
\<close>

definition pd_DataFrame_columns ::
  "('k \<times> nat) list \<Rightarrow> 'k list \<Rightarrow> py_error + 'k list \<times> nat list list" where
  "pd_DataFrame_columns d cols =
     (if list_ex (\<lambda>c. map_of d c \<noteq> None) cols then Inl ValueError else Inr (cols, []))"

text \<open>
  \<open>DataFrame.value_counts()\<close>: a series whose index levels are named after the columns
  of the frame, with one entry for each distinct row, the number of its occurrences, and
  the larger numbers first.
\<close>

definition pd_value_counts :: "'k list \<times> nat list list \<Rightarrow> 'k list \<times> (nat list \<times> nat) list" where
  "pd_value_counts df = (fst df, sort_key (\<lambda>rn. - int (snd rn)) (Counter (snd df)))"

text \<open>
  \<open>Series.reset_index(name=n)\<close>: the frame whose columns are the index levels and then
  the values, under the label \<open>n\<close>. A level that has the label of a column already there
  cannot be inserted: pandas raises \<open>ValueError\<close>.
\<close>

definition pd_reset_index ::
  "'k list \<times> (nat list \<times> nat) list \<Rightarrow> 'k \<Rightarrow> py_error + 'k list \<times> nat list list" where
  "pd_reset_index sr n =
     (if n \<in> set (fst sr) then Inl ValueError
      else Inr (fst sr @ [n], map (\<lambda>(r, k). r @ [k]) (snd sr)))"

text \<open>
  \<open>DataFrame.sort_values(by=c, ascending=False)\<close>: the rows with the larger entries of
  column \<open>c\<close> first; \<open>KeyError\<close> when there is no such column.
\<close>

definition pd_sort_values ::
  "'k list \<times> nat list list \<Rightarrow> 'k \<Rightarrow> py_error + 'k list \<times> nat list list" where
  "pd_sort_values df c =
     (if c \<notin> set (fst df) then Inl KeyError
      else (let i = length (takeWhile (\<lambda>l. l \<noteq> c) (fst df))
            in Inr (fst df, sort_key (\<lambda>r. - int (r ! i)) (snd df))))"

text \<open>Lines 130 and 131 of \<open>main\<close>, on the counter of line 129.\<close>

definition token_frequency_table ::
  "(string \<times> nat) list \<Rightarrow> py_error + string list \<times> nat list list" where
  "token_frequency_table counted_tokens =
     try_bind (pd_DataFrame_columns counted_tokens [''token'', ''frequency'']) (\<lambda>df.
     try_bind (pd_reset_index (pd_value_counts df) ''frequency'') (\<lambda>token_frequency.
     pd_sort_values token_frequency ''frequency''))"

section \<open>The entry point\<close>

type_synonym files = "string \<rightharpoonup> string"

definition py_index :: "'a list \<Rightarrow> nat \<Rightarrow> py_error + 'a" where
  "py_index xs i = (if i < length xs then Inr (xs ! i) else Inl IndexError)"

definition pd_read_csv :: "libs \<Rightarrow> files \<Rightarrow> string \<Rightarrow> py_error + dataframe" where
  "pd_read_csv L fs path =
     (case fs path of None \<Rightarrow> Inl FileNotFoundError | Some bytes \<Rightarrow> read_csv L bytes)"

text \<open>A comprehension over a function that may raise stops at the first exception.\<close>

fun map_raise :: "('a \<Rightarrow> py_error + 'b) \<Rightarrow> 'a list \<Rightarrow> py_error + 'b list" where
  "map_raise f [] = Inr []"
| "map_raise f (x # xs) =
     (case f x of
        Inl e \<Rightarrow> Inl e
      | Inr y \<Rightarrow> (case map_raise f xs of Inl e \<Rightarrow> Inl e | Inr ys \<Rightarrow> Inr (y # ys)))"

text \<open>
  Lines 116 to 129 of \<open>main\<close>: everything up to the counter, with the flag \<open>search\<close>.
\<close>

definition main_counted ::
  "libs \<Rightarrow> files \<Rightarrow> 'a list \<Rightarrow> string list
     \<Rightarrow> py_error + (bool \<times> string list \<times> string option list \<times> (string \<times> nat) list)" where
  "main_counted L fs arr_data mappings =
     try_bind (spacy_load L) (\<lambda>nlp.
     try_bind (py_index mappings 0) (\<lambda>m0.
     let text_index = (if m0 = ''Text Title'' then 0 else 1);
         date_index = (if m0 = ''Text Title'' then 1 else 3);
         search = (if m0 = ''Text Title'' then True else False) in
     try_bind (py_index arr_data text_index) (\<lambda>text_array.
     try_bind (py_index arr_data date_index) (\<lambda>date_array.
     try_bind (pd_read_csv L fs ''personal_data/output/dash_ready_search_data.csv'') (\<lambda>table.
     try_bind (extract_search_queries table) (\<lambda>search_queries.
     try_bind (extract_visited_sites table) (\<lambda>visited_sites.
     try_bind (map_raise (extract_homepage_main L) visited_sites) (\<lambda>homepages.
     let cleaned_tokens = process_texts L search_queries nlp;
         counted_tokens = Counter cleaned_tokens in
     Inr (search, visited_sites, homepages, counted_tokens)))))))))"

text \<open>Lines 130 to 132: the two tables.\<close>

definition main_tables ::
  "libs \<Rightarrow> files \<Rightarrow> 'a list \<Rightarrow> string list
     \<Rightarrow> py_error + (bool \<times> (string \<times> string option) list \<times> (string list \<times> nat list list))" where
  "main_tables L fs arr_data mappings =
     try_bind (main_counted L fs arr_data mappings)
       (\<lambda>(search, visited_sites, homepages, counted_tokens).
     try_bind (token_frequency_table counted_tokens) (\<lambda>token_frequency.
     Inr (search, zip visited_sites homepages, token_frequency)))"

text \<open>
  \<open>main\<close> returns the files as it leaves them and its outcome. Behind the two writes both
  branches of the final \<open>if\<close> read a name that is bound nowhere in the module
  (\<open>flag_short_videos\<close>, \<open>differences\<close>), which would raise \<open>NameError\<close>. The three
  paths are in one directory, so the directory exists once the cache has been read.
\<close>

definition main :: "libs \<Rightarrow> files \<Rightarrow> 'a list \<Rightarrow> string list \<Rightarrow> files \<times> (py_error + 'r)" where
  "main L fs arr_data mappings =
     (case main_tables L fs arr_data mappings of
        Inl e \<Rightarrow> (fs, Inl e)
      | Inr (search, visited_data, frequency_table) \<Rightarrow>
          (let fs1 = fs(''personal_data/output/visited_homepages.csv''
                          \<mapsto> visited_csv L visited_data);
               fs2 = fs1(''personal_data/output/search_token_frequency.csv''
                          \<mapsto> frequency_csv L frequency_table)
           in (fs2, if \<not> search then Inl NameError else Inl NameError)))"

section \<open>The specification's wording\<close>

text \<open>
  The extraction as the specification words it: the titles that start with the whole
  prefix, with the prefix cut off.
\<close>

definition queries_spec :: "string list \<Rightarrow> string list" where
  "queries_spec titles =
     take 1000 (map (drop (length ''Searched for ''))
       (filter (\<lambda>t. startswith t ''Searched for '') titles))"

definition visits_spec :: "string list \<Rightarrow> string list" where
  "visits_spec titles =
     (let vs = map (drop (length ''Visited '')) (filter (\<lambda>t. startswith t ''Visited '') titles)
      in drop (length vs - 100) vs)"

text \<open>A text has a separator when \<open> - \<close> or \<open> | \<close> starts somewhere in it.\<close>

fun contains_separator :: "string \<Rightarrow> bool" where
  "contains_separator [] = False"
| "contains_separator (c # cs) = (separator_at (c # cs) \<or> contains_separator cs)"

text \<open>A text is empty or whitespace only when it is a sequence of whitespace code points.\<close>

fun whitespace_only :: "string \<Rightarrow> bool" where
  "whitespace_only [] = True"
| "whitespace_only (c # cs) =
     (case find (\<lambda>w. startswith (c # cs) w) py_whitespace of
        None \<Rightarrow> False
      | Some w \<Rightarrow> whitespace_only (drop (length w - 1) cs))"

section \<open>Public suffix extraction\<close>

text \<open>
  Modelled from the spec: \<open>tldextract.extract\<close>, the library function that
  \<open>extract_homepage_from_url\<close> calls and the repository does not contain. The
  specification asks for the registrable domain, the second-level domain and the public
  suffix, by a public-suffix-aware extraction that handles suffixes of several labels.
  The host is what follows the scheme up to the first \<open>/\<close>, \<open>?\<close> or \<open>#\<close>; its labels are
  the parts between dots. The suffix is the longest run of closing labels that is an
  entry of the public suffix list \<open>psl\<close>, the domain is the label before it, and the
  subdomain is what precedes the domain. When no run of closing labels is an entry the
  suffix is empty and the domain is the last label.
\<close>

fun split_dots :: "string \<Rightarrow> string list" where
  "split_dots [] = [[]]"
| "split_dots (c # cs) =
     (if c = CHR ''.'' then [] # split_dots cs
      else (let ls = split_dots cs in (c # hd ls) # tl ls))"

text \<open>Modelled from the spec: the labels of a host, joined by dots again.\<close>

fun join_dots :: "string list \<Rightarrow> string" where
  "join_dots [] = []"
| "join_dots [l] = l"
| "join_dots (l # m # ls) = l @ ''.'' @ join_dots (m # ls)"

text \<open>Modelled from the spec: the host of a URL, its network location.\<close>

definition url_host :: "string \<Rightarrow> string" where
  "url_host url =
     takeWhile (\<lambda>c. c \<notin> set ''/?#'')
       (if startswith url ''https://'' then drop 8 url
        else if startswith url ''http://'' then drop 7 url else url)"

text \<open>
  Modelled from the spec: the labels before the public suffix, and the labels of the
  suffix. The first closing run, from the left, that is an entry is the longest.
\<close>

fun suffix_split :: "string list \<Rightarrow> string list \<Rightarrow> string list \<times> string list" where
  "suffix_split psl [] = ([], [])"
| "suffix_split psl (l # ls) =
     (if join_dots (l # ls) \<in> set psl then ([], l # ls)
      else (let (front, suf) = suffix_split psl ls in (l # front, suf)))"

text \<open>
  Modelled from the spec: the result of \<open>tldextract.extract\<close> over the public suffix
  list \<open>psl\<close>.
\<close>

definition tld_extract :: "string list \<Rightarrow> string \<Rightarrow> extract_result" where
  "tld_extract psl url =
     (let (front, suf) = suffix_split psl (split_dots (url_host url)) in
      \<lparr> ext_subdomain = join_dots (butlast front),
        ext_domain = (if front = [] then [] else last front),
        ext_suffix = join_dots suf \<rparr>)"

section \<open>Sample library results\<close>

text \<open>
  One behaviour of the libraries, for the examples below. \<open>urlparse\<close> raises
  \<open>ValueError\<close> on \<open>http://[\<close> and \<open>https://[\<close>, whose network location has an unmatched
  bracket; \<open>tldextract\<close> extracts over a public suffix list with the entries \<open>com\<close>,
  \<open>org\<close>, \<open>uk\<close> and \<open>co.uk\<close>; the tokenizer makes one token of a one-word text and
  \<open>str.lower\<close> leaves a lower-case word as it is; the cache file holds three titles. The
  two tables are written as lines of comma-separated fields.
\<close>

definition example_psl :: "string list" where
  "example_psl = [''com'', ''org'', ''uk'', ''co.uk'']"

definition example_table :: dataframe where
  "example_table =
     [''Text Title'' \<mapsto>
        [Str ''Searched for cats'', Str ''Visited https://www.example.co.uk/page'',
         Str ''Visited My Great Article - Example News'']]"

definition example_cache :: string where
  "example_cache =
     ''Text Title'' @ [CHR 0x0A] @ ''Searched for cats'' @ [CHR 0x0A]
     @ ''Visited https://www.example.co.uk/page'' @ [CHR 0x0A]
     @ ''Visited My Great Article - Example News'' @ [CHR 0x0A]"

definition example_libs :: libs where
  "example_libs =
     \<lparr> urlparse_netloc =
         (\<lambda>url. if url = ''http://['' \<or> url = ''https://['' then Inl ValueError
                else if url = ''https://www.example.co.uk/page'' then Inr ''www.example.co.uk''
                else Inr []),
       tldextract = tld_extract example_psl,
       spacy_load = Inr (\<lambda>doc. [\<lparr>tok_text = doc, is_stop = False, is_punct = False\<rparr>]),
       str_lower = (\<lambda>s. s),
       read_csv = (\<lambda>bytes. if bytes = example_cache then Inr example_table else Inr Map.empty),
       visited_csv =
         (\<lambda>rows. concat (map (\<lambda>(v, h). v @ '','' @ (case h of None \<Rightarrow> [] | Some d \<Rightarrow> d)
                                  @ [CHR 0x0A]) rows)),
       frequency_csv =
         (\<lambda>df. concat (map (\<lambda>l. l @ '','') (fst df)) @ [CHR 0x0A]
                @ concat (map (\<lambda>r. concat (map (\<lambda>k. replicate k CHR ''1'' @ '','') r) @ [CHR 0x0A])
                    (snd df))) \<rparr>"


section \<open>Properties of the extraction\<close>

lemma stripped_titles_Str:
  "stripped_titles pre old (map Str titles) =
     Inr (map (\<lambda>t. str_replace1 t old []) (filter (\<lambda>t. startswith t pre) titles))"
  by (induction titles) auto

lemma stripped_titles_NotStr:
  "NotStr \<in> set col \<Longrightarrow> stripped_titles pre old col = Inl AttributeError"
proof (induction col)
  case Nil
  then show ?case by simp
next
  case (Cons c col)
  then show ?case by (cases c) auto
qed

text \<open>A cell that is not a string makes both extractions raise \<open>AttributeError\<close>.\<close>

lemma not_str_AttributeError:
  "data ''Text Title'' = Some col \<Longrightarrow> NotStr \<in> set col \<Longrightarrow>
     extract_search_queries data = Inl AttributeError
     \<and> extract_visited_sites data = Inl AttributeError"
  by (simp add: extract_search_queries_def extract_visited_sites_def stripped_titles_NotStr)

lemma str_replace1_prefix:
  "startswith t old \<Longrightarrow> str_replace1 t old new = new @ drop (length old) t"
  by (cases t) (auto simp: startswith_def)

lemma startswith_append: "startswith t (p @ q) \<Longrightarrow> startswith t p"
proof -
  assume "startswith t (p @ q)"
  then have "take (length p) (take (length (p @ q)) t) = take (length p) (p @ q)"
    by (simp add: startswith_def)
  then show ?thesis by (simp add: startswith_def min_def)
qed

lemma searched_for_searched: "startswith t ''Searched for '' \<Longrightarrow> startswith t ''Searched''"
  using startswith_append [of t "''Searched''" "'' for ''"] by simp

lemma visited_visited: "startswith t ''Visited '' \<Longrightarrow> startswith t ''Visited''"
  using startswith_append [of t "''Visited''" "'' ''"] by simp

text \<open>
  Claim C1, as amended. For every dataframe whose \<open>Text Title\<close> column holds strings,
  \<open>extract_search_queries\<close> returns the titles that start with \<open>Searched\<close>, each with the
  leftmost occurrence of \<open>Searched for \<close> removed, the first 1000 of them in the original
  order; the result has at most 1000 entries. For a title that starts with
  \<open>Searched for \<close> the removal cuts exactly that prefix, and where every title that starts
  with \<open>Searched\<close> starts with \<open>Searched for \<close> the result is the one the specification
  words (\<open>queries_spec\<close>).
\<close>

theorem search_queries_first_1000:
  "data ''Text Title'' = Some (map Str titles) \<Longrightarrow>
     (\<exists>qs. extract_search_queries data = Inr qs
        \<and> qs = take 1000 (map (\<lambda>t. str_replace1 t ''Searched for '' [])
                 (filter (\<lambda>t. startswith t ''Searched'') titles))
        \<and> length qs \<le> 1000
        \<and> ((\<forall>t \<in> set titles. startswith t ''Searched'' \<longrightarrow> startswith t ''Searched for '')
              \<longrightarrow> qs = queries_spec titles))
     \<and> (\<forall>t. startswith t ''Searched for ''
            \<longrightarrow> str_replace1 t ''Searched for '' [] = drop (length ''Searched for '') t)"
proof -
  assume col: "data ''Text Title'' = Some (map Str titles)"
  let ?qs = "take 1000 (map (\<lambda>t. str_replace1 t ''Searched for '' [])
                 (filter (\<lambda>t. startswith t ''Searched'') titles))"
  have run: "extract_search_queries data = Inr ?qs"
    by (simp add: extract_search_queries_def col stripped_titles_Str)
  have cut: "str_replace1 t ''Searched for '' [] = drop (length ''Searched for '') t"
    if "startswith t ''Searched for ''" for t
    using str_replace1_prefix [OF that, of "[]"] by simp
  have same: "?qs = queries_spec titles"
    if fmt: "\<forall>t \<in> set titles. startswith t ''Searched'' \<longrightarrow> startswith t ''Searched for ''"
  proof -
    have f: "filter (\<lambda>t. startswith t ''Searched'') titles
               = filter (\<lambda>t. startswith t ''Searched for '') titles"
      using fmt searched_for_searched by (intro filter_cong) auto
    have m: "map (\<lambda>t. str_replace1 t ''Searched for '' [])
                 (filter (\<lambda>t. startswith t ''Searched for '') titles)
               = map (drop (length ''Searched for ''))
                 (filter (\<lambda>t. startswith t ''Searched for '') titles)"
      by (intro map_cong) (auto simp: cut)
    show ?thesis unfolding queries_spec_def f m ..
  qed
  show ?thesis using run same cut by auto
qed

theorem search_queries_first_1000_witness:
  "extract_search_queries
      [''Text Title'' \<mapsto> map Str [''Searched for cats'', ''Visited https://a.org'', ''Searched for dogs'']]
     = Inr [''cats'', ''dogs'']
   \<and> queries_spec [''Searched for cats'', ''Visited https://a.org'', ''Searched for dogs'']
     = [''cats'', ''dogs'']"
  using search_queries_first_1000
    [of "[''Text Title'' \<mapsto> map Str [''Searched for cats'', ''Visited https://a.org'', ''Searched for dogs'']]"
        "[''Searched for cats'', ''Visited https://a.org'', ''Searched for dogs'']"]
  by (simp add: startswith_def queries_spec_def)

text \<open>
  Claim C1 as stated fails: the title \<open>Searched the web\<close> does not start with
  \<open>Searched for \<close> and is returned all the same, and the query returned for
  \<open>Searched for Searched for x\<close> starts with \<open>Searched for \<close>.
\<close>

theorem search_queries_first_1000_counterexample:
  "extract_search_queries
      [''Text Title'' \<mapsto> [Str ''Searched the web'', Str ''Searched for Searched for x'']]
     = Inr [''Searched the web'', ''Searched for x'']
   \<and> queries_spec [''Searched the web'', ''Searched for Searched for x''] = [''Searched for x'']
   \<and> \<not> startswith ''Searched the web'' ''Searched for ''
   \<and> startswith ''Searched for x'' ''Searched for ''"
  by (simp add: extract_search_queries_def queries_spec_def startswith_def)

text \<open>
  Claim C2, as amended. For every dataframe whose \<open>Text Title\<close> column holds strings,
  \<open>extract_visited_sites\<close> returns at most 100 strings: the last 100, in the original
  order, of the titles that start with \<open>Visited\<close>, each with the leftmost occurrence of
  \<open>Visited \<close> removed. For a title that starts with \<open>Visited \<close> the removal cuts exactly
  that prefix, and where every title that starts with \<open>Visited\<close> starts with \<open>Visited \<close>
  the result is the one the specification words (\<open>visits_spec\<close>).
\<close>

theorem visited_sites_last_100:
  "data ''Text Title'' = Some (map Str titles) \<Longrightarrow>
     (\<exists>vs all. extract_visited_sites data = Inr vs
        \<and> all = map (\<lambda>t. str_replace1 t ''Visited '' [])
                 (filter (\<lambda>t. startswith t ''Visited'') titles)
        \<and> vs = drop (length all - 100) all
        \<and> length vs \<le> 100
        \<and> ((\<forall>t \<in> set titles. startswith t ''Visited'' \<longrightarrow> startswith t ''Visited '')
              \<longrightarrow> vs = visits_spec titles))
     \<and> (\<forall>t. startswith t ''Visited ''
            \<longrightarrow> str_replace1 t ''Visited '' [] = drop (length ''Visited '') t)"
proof -
  assume col: "data ''Text Title'' = Some (map Str titles)"
  let ?all = "map (\<lambda>t. str_replace1 t ''Visited '' [])
                 (filter (\<lambda>t. startswith t ''Visited'') titles)"
  let ?vs = "drop (length ?all - 100) ?all"
  have run: "extract_visited_sites data = Inr ?vs"
    by (simp add: extract_visited_sites_def col stripped_titles_Str)
  have len: "length ?vs \<le> 100"
    by simp
  have cut: "str_replace1 t ''Visited '' [] = drop (length ''Visited '') t"
    if "startswith t ''Visited ''" for t
    using str_replace1_prefix [OF that, of "[]"] by simp
  have same: "?vs = visits_spec titles"
    if fmt: "\<forall>t \<in> set titles. startswith t ''Visited'' \<longrightarrow> startswith t ''Visited ''"
  proof -
    have f: "filter (\<lambda>t. startswith t ''Visited'') titles
               = filter (\<lambda>t. startswith t ''Visited '') titles"
      using fmt visited_visited by (intro filter_cong) auto
    have m: "map (\<lambda>t. str_replace1 t ''Visited '' [])
                 (filter (\<lambda>t. startswith t ''Visited '') titles)
               = map (drop (length ''Visited ''))
                 (filter (\<lambda>t. startswith t ''Visited '') titles)"
      by (intro map_cong) (auto simp: cut)
    show ?thesis unfolding visits_spec_def Let_def f m ..
  qed
  show ?thesis using run len same cut by blast
qed

theorem visited_sites_last_100_witness:
  "extract_visited_sites
      [''Text Title'' \<mapsto> map Str [''Visited https://a.org'', ''Searched for cats'', ''Visited A page - Site'']]
     = Inr [''https://a.org'', ''A page - Site'']
   \<and> visits_spec [''Visited https://a.org'', ''Searched for cats'', ''Visited A page - Site'']
     = [''https://a.org'', ''A page - Site'']"
  using visited_sites_last_100
    [of "[''Text Title'' \<mapsto> map Str [''Visited https://a.org'', ''Searched for cats'', ''Visited A page - Site'']]"
        "[''Visited https://a.org'', ''Searched for cats'', ''Visited A page - Site'']"]
  by (simp add: startswith_def visits_spec_def)

text \<open>
  Claim C2 as stated fails: the title \<open>Visitedpage\<close> does not start with \<open>Visited \<close>
  and is returned all the same, unchanged.
\<close>

theorem visited_sites_last_100_counterexample:
  "extract_visited_sites [''Text Title'' \<mapsto> [Str ''Visited news'', Str ''Visitedpage'']]
     = Inr [''news'', ''Visitedpage'']
   \<and> visits_spec [''Visited news'', ''Visitedpage''] = [''news'']
   \<and> \<not> startswith ''Visitedpage'' ''Visited ''"
  by (simp add: extract_visited_sites_def visits_spec_def startswith_def)

text \<open>
  Claim C7. On a dataframe without the \<open>Text Title\<close> column both extractions raise
  \<open>KeyError\<close>: neither returns a list, empty or not.
\<close>

theorem missing_column_KeyError:
  "data ''Text Title'' = None \<Longrightarrow>
     extract_search_queries data = Inl KeyError \<and> extract_visited_sites data = Inl KeyError"
  by (simp add: extract_search_queries_def extract_visited_sites_def)

theorem missing_column_KeyError_witness:
  "extract_search_queries [''Date'' \<mapsto> [Str ''2024-01-01'']] = Inl KeyError
   \<and> extract_visited_sites [''Date'' \<mapsto> [Str ''2024-01-01'']] = Inl KeyError"
  using missing_column_KeyError [of "[''Date'' \<mapsto> [Str ''2024-01-01'']]"]
  by simp

section \<open>Properties of the homepage normalisation\<close>

lemma re_split_nonempty: "re_split s \<noteq> []"
  by (induction s rule: re_split.induct) (auto simp: Let_def)

lemma length_re_split: "(length (re_split s) = 1) = (\<not> contains_separator s)"
proof (induction s rule: re_split.induct)
  case 1
  show ?case by simp
next
  case (2 c cs)
  show ?case
  proof (cases "separator_at (c # cs)")
    case True
    then show ?thesis using re_split_nonempty [of "drop 2 cs"] by simp
  next
    case False
    have "length (re_split (c # cs)) = length (re_split cs)"
      using False re_split_nonempty [of cs] by (cases "re_split cs") (auto simp: Let_def)
    then show ?thesis using False 2 by simp
  qed
qed

lemma startswith_iff: "startswith s p = (\<exists>post. s = p @ post)"
  unfolding startswith_def
  by (metis append_eq_conv_conj append_take_drop_id)

text \<open>\<open>contains_separator\<close> is the occurrence of a separator as a substring.\<close>

lemma contains_separator_iff:
  "contains_separator s = (\<exists>pre post. s = pre @ '' - '' @ post \<or> s = pre @ '' | '' @ post)"
proof (induction s)
  case Nil
  show ?case by simp
next
  case (Cons c cs)
  show ?case (is "?L = ?R")
  proof
    assume ?L
    then consider "separator_at (c # cs)" | "contains_separator cs" by auto
    then show ?R
    proof cases
      case 1
      then obtain post where "c # cs = '' - '' @ post \<or> c # cs = '' | '' @ post"
        unfolding separator_at_def startswith_iff by blast
      then have "c # cs = [] @ '' - '' @ post \<or> c # cs = [] @ '' | '' @ post" by simp
      then show ?thesis by blast
    next
      case 2
      then obtain pre post where "cs = pre @ '' - '' @ post \<or> cs = pre @ '' | '' @ post"
        using Cons by blast
      then have "c # cs = (c # pre) @ '' - '' @ post \<or> c # cs = (c # pre) @ '' | '' @ post"
        by simp
      then show ?thesis by blast
    qed
  next
    assume ?R
    then obtain pre post where e: "c # cs = pre @ '' - '' @ post \<or> c # cs = pre @ '' | '' @ post"
      by blast
    show ?L
    proof (cases pre)
      case Nil
      with e have "separator_at (c # cs)"
        unfolding separator_at_def startswith_iff by auto
      then show ?thesis by simp
    next
      case (Cons d pre')
      with e have "cs = pre' @ '' - '' @ post \<or> cs = pre' @ '' | '' @ post" by auto
      then have "contains_separator cs" using Cons.IH by blast
      then show ?thesis by simp
    qed
  qed
qed

text \<open>
  Without a separator the text is the only segment; with one, the last segment is what
  follows a separator at the end of the text.
\<close>

lemma re_split_no_separator: "\<not> contains_separator s \<Longrightarrow> re_split s = [s]"
  by (induction s rule: re_split.induct) (auto simp: Let_def)

lemma separator_at_split:
  "separator_at (c # cs) \<Longrightarrow> c # cs = '' - '' @ drop 2 cs \<or> c # cs = '' | '' @ drop 2 cs"
proof -
  assume "separator_at (c # cs)"
  then obtain post where p: "c # cs = '' - '' @ post \<or> c # cs = '' | '' @ post"
    unfolding separator_at_def startswith_iff by blast
  then have "drop 2 cs = post" by auto
  then show ?thesis using p by simp
qed

lemma re_split_last:
  "contains_separator s \<Longrightarrow>
     \<exists>pre. s = pre @ '' - '' @ last (re_split s) \<or> s = pre @ '' | '' @ last (re_split s)"
proof (induction s rule: re_split.induct)
  case 1
  then show ?case by simp
next
  case (2 c cs)
  show ?case
  proof (cases "separator_at (c # cs)")
    case True
    let ?r = "drop 2 cs"
    have l: "last (re_split (c # cs)) = last (re_split ?r)"
      using True re_split_nonempty [of ?r] by simp
    have h: "c # cs = '' - '' @ ?r \<or> c # cs = '' | '' @ ?r"
      using True by (rule separator_at_split)
    show ?thesis
    proof (cases "contains_separator ?r")
      case False
      then have "last (re_split (c # cs)) = ?r"
        using l re_split_no_separator by simp
      then have "c # cs = [] @ '' - '' @ last (re_split (c # cs))
                 \<or> c # cs = [] @ '' | '' @ last (re_split (c # cs))"
        using h by simp
      then show ?thesis by blast
    next
      case c: True
      then obtain pre where
        "?r = pre @ '' - '' @ last (re_split ?r) \<or> ?r = pre @ '' | '' @ last (re_split ?r)"
        using 2(1) [OF True] by blast
      then have "c # cs = (take 3 (c # cs) @ pre) @ '' - '' @ last (re_split (c # cs))
                 \<or> c # cs = (take 3 (c # cs) @ pre) @ '' | '' @ last (re_split (c # cs))"
        using h l by auto
      then show ?thesis by blast
    qed
  next
    case False
    then have c: "contains_separator cs" using 2(3) by simp
    then have "length (re_split cs) \<noteq> 1" using length_re_split [of cs] by simp
    then obtain p q ps where "re_split cs = p # q # ps"
      using re_split_nonempty [of cs]
      by (cases "re_split cs"; cases "tl (re_split cs)") auto
    then have l: "last (re_split (c # cs)) = last (re_split cs)"
      using False by (simp add: Let_def)
    obtain pre where
      "cs = pre @ '' - '' @ last (re_split cs) \<or> cs = pre @ '' | '' @ last (re_split cs)"
      using 2(2) [OF False c] by blast
    then have "c # cs = (c # pre) @ '' - '' @ last (re_split (c # cs))
               \<or> c # cs = (c # pre) @ '' | '' @ last (re_split (c # cs))"
      using l by auto
    then show ?thesis by blast
  qed
qed

lemma whitespace_only_lstrip: "whitespace_only s \<Longrightarrow> lstrip_with py_whitespace s = []"
proof (induction s rule: whitespace_only.induct)
  case 1
  show ?case by simp
next
  case (2 c cs)
  then show ?case by (auto split: option.splits)
qed

lemma whitespace_only_strip: "whitespace_only s \<Longrightarrow> str_strip s = []"
  by (simp add: str_strip_def whitespace_only_lstrip)

lemma py_whitespace_nonempty: "[] \<notin> set py_whitespace"
  by (simp add: py_whitespace_def)

lemma py_whitespace_prefix_free:
  "\<forall>a \<in> set py_whitespace. \<forall>b \<in> set py_whitespace. startswith a b \<longrightarrow> a = b"
  by (simp add: py_whitespace_def startswith_def)

lemma startswith_same_string:
  assumes "startswith s a" and "startswith s b"
  shows "startswith a b \<or> startswith b a"
proof -
  obtain x y where "s = a @ x" "s = b @ y"
    using assms unfolding startswith_iff by blast
  then have "a @ x = b @ y" by simp
  then show ?thesis
    unfolding append_eq_append_conv2 startswith_iff by auto
qed

lemma find_whitespace:
  assumes "w \<in> set py_whitespace" and "startswith s w"
  shows "find (\<lambda>v. startswith s v) py_whitespace = Some w"
proof (cases "find (\<lambda>v. startswith s v) py_whitespace")
  case None
  then show ?thesis using assms by (auto simp: find_None_iff)
next
  case (Some v)
  then have v: "v \<in> set py_whitespace" "startswith s v"
    by (auto simp: find_Some_iff)
  then have "startswith w v \<or> startswith v w"
    using assms startswith_same_string by blast
  then have "v = w" using py_whitespace_prefix_free v assms by blast
  then show ?thesis using Some by simp
qed

lemma whitespace_only_concat:
  "set ws \<subseteq> set py_whitespace \<Longrightarrow> whitespace_only (concat ws)"
proof (induction ws)
  case Nil
  show ?case by simp
next
  case (Cons w ws)
  then have w: "w \<in> set py_whitespace" and rest: "whitespace_only (concat ws)" by auto
  have "w \<noteq> []" using w py_whitespace_nonempty by auto
  then obtain c v where wv: "w = c # v" by (cases w) auto
  have "startswith (concat (w # ws)) w" by (simp add: startswith_def)
  then have "find (\<lambda>u. startswith (c # v @ concat ws) u) py_whitespace = Some w"
    using find_whitespace [OF w] wv by simp
  then show ?case using rest wv by simp
qed

text \<open>
  \<open>whitespace_only\<close> holds of exactly the concatenations of whitespace code points.
\<close>

lemma whitespace_only_iff:
  "whitespace_only s = (\<exists>ws. set ws \<subseteq> set py_whitespace \<and> s = concat ws)"
proof
  show "whitespace_only s \<Longrightarrow> \<exists>ws. set ws \<subseteq> set py_whitespace \<and> s = concat ws"
  proof (induction s rule: whitespace_only.induct)
    case 1
    have "set [] \<subseteq> set py_whitespace \<and> [] = concat ([] :: string list)" by simp
    then show ?case by blast
  next
    case (2 c cs)
    then obtain w where f: "find (\<lambda>w. startswith (c # cs) w) py_whitespace = Some w"
      and r: "whitespace_only (drop (length w - 1) cs)"
      by (auto split: option.splits)
    from f have w: "w \<in> set py_whitespace" "startswith (c # cs) w"
      by (auto simp: find_Some_iff)
    then have "w \<noteq> []" using py_whitespace_nonempty by auto
    then have "c # cs = w @ drop (length w - 1) cs"
      using w(2) append_take_drop_id [of "length w - 1" cs]
      by (cases w) (auto simp: startswith_def)
    moreover obtain ws where "set ws \<subseteq> set py_whitespace" "drop (length w - 1) cs = concat ws"
      using 2(1) [OF f r] by blast
    ultimately have "set (w # ws) \<subseteq> set py_whitespace \<and> c # cs = concat (w # ws)"
      using w(1) by simp
    then show ?case by blast
  qed
next
  show "\<exists>ws. set ws \<subseteq> set py_whitespace \<and> s = concat ws \<Longrightarrow> whitespace_only s"
    using whitespace_only_concat by blast
qed

lemma from_url_result:
  "is_url url \<Longrightarrow>
     extract_homepage_main L url =
       (case urlparse_netloc L url of
          Inl e \<Rightarrow> Inl e
        | Inr netloc \<Rightarrow>
            Inr (Some (ext_domain (tldextract L url) @ ''.'' @ ext_suffix (tldextract L url))))"
  by (simp add: extract_homepage_main_def extract_homepage_from_url_def Let_def split: sum.splits)

lemma alt_form_result:
  "\<not> is_url s \<Longrightarrow>
     extract_homepage_main L s =
       (let segment = str_strip (last (re_split s)) in
        if \<not> contains_separator s \<or> is_url segment \<or> endswith segment ''...''
        then Inr None else Inr (Some segment))"
  using re_split_nonempty [of s] length_re_split [of s]
  by (cases "re_split s")
     (auto simp: extract_homepage_main_def extract_homepage_alt_form_def Let_def)








text \<open>
  Claim C4. For every input string that does not start with \<open>http://\<close> or \<open>https://\<close>,
  \<open>extract_homepage_main\<close> splits it at the separators \<open> - \<close> and \<open> | \<close>, takes the last
  segment and trims it. It returns \<open>None\<close> when the string has no separator (so for the
  empty string), when the trimmed segment starts with a web protocol, or when it ends
  with \<open>...\<close>; otherwise it returns the trimmed segment, so for
  \<open>My Great Article - Example News\<close> it returns \<open>Example News\<close>.
\<close>

theorem alt_form_last_segment:
  "\<not> is_url s \<Longrightarrow>
     extract_homepage_main L s =
       (let segment = str_strip (last (re_split s)) in
        if \<not> contains_separator s \<or> is_url segment \<or> endswith segment ''...''
        then Inr None else Inr (Some segment))
     \<and> extract_homepage_main L [] = Inr None
     \<and> extract_homepage_main L ''My Great Article - Example News'' = Inr (Some ''Example News'')"
proof -
  assume nu: "\<not> is_url s"
  have e: "\<not> is_url []" by (simp add: is_url_def startswith_def)
  have a: "\<not> is_url ''My Great Article - Example News''"
    by (simp add: is_url_def startswith_def)
  have "extract_homepage_main L [] = Inr None"
    using alt_form_result [OF e] by simp
  moreover have "extract_homepage_main L ''My Great Article - Example News''
      = Inr (Some ''Example News'')"
    unfolding extract_homepage_main_def using a
    by (simp add: extract_homepage_alt_form_def separator_at_def startswith_def endswith_def
        is_url_def str_strip_def py_whitespace_def)
  ultimately show ?thesis using alt_form_result [OF nu] by simp
qed

theorem alt_form_last_segment_witness:
  "\<not> is_url ''Weather | Some Truncated Title...''
   \<and> extract_homepage_main example_libs ''Weather | Some Truncated Title...'' = Inr None
   \<and> extract_homepage_main example_libs ''SingleSegmentNoDelimiter'' = Inr None
   \<and> extract_homepage_main example_libs ''A page - https://a.org'' = Inr None
   \<and> extract_homepage_main example_libs ''Docs | Guide - The Site  '' = Inr (Some ''The Site'')"
  using alt_form_last_segment [of "''Weather | Some Truncated Title...''" example_libs]
    alt_form_last_segment [of "''SingleSegmentNoDelimiter''" example_libs]
    alt_form_last_segment [of "''A page - https://a.org''" example_libs]
    alt_form_last_segment [of "''Docs | Guide - The Site  ''" example_libs]
  by (simp add: separator_at_def startswith_def endswith_def is_url_def str_strip_def
      py_whitespace_def)

text \<open>
  Claim C9, as amended. For every input string that starts with \<open>http://\<close> or
  \<open>https://\<close>, \<open>extract_homepage_main\<close> never returns \<open>None\<close>. Whenever \<open>urlparse\<close>
  returns, the result is the string made of the domain, a dot and the suffix, also
  where the extraction finds an empty domain or suffix: then the string starts or ends
  with the dot, and it is the dot alone when both are empty (as for \<open>http://\<close>). When
  \<open>urlparse\<close> raises, \<open>extract_homepage_main\<close> raises the same exception.
\<close>

theorem url_never_absent:
  "is_url url \<Longrightarrow>
     extract_homepage_main L url \<noteq> Inr None
     \<and> (\<forall>netloc. urlparse_netloc L url = Inr netloc \<longrightarrow>
          (\<exists>h. extract_homepage_main L url = Inr (Some h)
             \<and> h = ext_domain (tldextract L url) @ ''.'' @ ext_suffix (tldextract L url)
             \<and> (ext_domain (tldextract L url) = [] \<longrightarrow> startswith h ''.'')
             \<and> (ext_suffix (tldextract L url) = [] \<longrightarrow> endswith h ''.'')
             \<and> (ext_domain (tldextract L url) = [] \<and> ext_suffix (tldextract L url) = []
                  \<longrightarrow> h = ''.'')))
     \<and> (\<forall>e. urlparse_netloc L url = Inl e \<longrightarrow> extract_homepage_main L url = Inl e)"
  by (auto simp: from_url_result startswith_def endswith_def split: sum.splits)

theorem url_never_absent_witness:
  "is_url ''http://'' \<and> extract_homepage_main example_libs ''http://'' = Inr (Some ''.'')"
  using url_never_absent [of "''http://''" example_libs]
  by (simp add: is_url_def startswith_def example_libs_def tld_extract_def url_host_def
      example_psl_def)

text \<open>
  Claim C9 as stated fails: \<open>http://[\<close> starts with \<open>http://\<close>, \<open>urlparse\<close> raises
  \<open>ValueError\<close> on it, and \<open>extract_homepage_main\<close> raises with it instead of returning
  a string.
\<close>

theorem url_never_absent_counterexample:
  "is_url ''http://[''
   \<and> urlparse_netloc example_libs ''http://['' = Inl ValueError
   \<and> extract_homepage_main example_libs ''http://['' = Inl ValueError"
  by (simp add: extract_homepage_main_def extract_homepage_from_url_def is_url_def
      startswith_def example_libs_def)

text \<open>
  Claim C10. For every string that does not start with \<open>http://\<close> or \<open>https://\<close>, has a
  separator \<open> - \<close> or \<open> | \<close>, and whose last segment is empty or whitespace only,
  \<open>extract_homepage_main\<close> returns the empty string, not \<open>None\<close>.
\<close>

theorem blank_segment_empty_homepage:
  "\<not> is_url s \<Longrightarrow> contains_separator s \<Longrightarrow> whitespace_only (last (re_split s)) \<Longrightarrow>
     extract_homepage_main L s = Inr (Some [])"
proof -
  assume nu: "\<not> is_url s" and sep: "contains_separator s"
    and ws: "whitespace_only (last (re_split s))"
  have "str_strip (last (re_split s)) = []" using ws by (rule whitespace_only_strip)
  moreover have "\<not> endswith [] ''...''" by (simp add: endswith_def)
  moreover have "\<not> is_url []" by (simp add: is_url_def startswith_def)
  ultimately show ?thesis
    using sep alt_form_result [OF nu, of L] by (simp add: Let_def)
qed

theorem blank_segment_empty_homepage_witness:
  "\<not> is_url ''Some Title - ''
   \<and> contains_separator ''Some Title - ''
   \<and> whitespace_only (last (re_split ''Some Title - ''))
   \<and> extract_homepage_main example_libs ''Some Title - '' = Inr (Some [])
   \<and> extract_homepage_main example_libs ''Some Title |   '' = Inr (Some [])"
  using blank_segment_empty_homepage [of "''Some Title - ''" example_libs]
    blank_segment_empty_homepage [of "''Some Title |   ''" example_libs]
  by (simp add: separator_at_def startswith_def is_url_def py_whitespace_def)

section \<open>Properties of the counter and of the entry point\<close>

lemma counter_add_sum: "sum_list (map snd (counter_add x c)) = Suc (sum_list (map snd c))"
  by (induction x c rule: counter_add.induct) auto

lemma foldl_counter_sum:
  "sum_list (map snd (foldl (\<lambda>c x. counter_add x c) c0 xs)) = sum_list (map snd c0) + length xs"
  by (induction xs arbitrary: c0) (auto simp: counter_add_sum)

text \<open>The counts of the counter add up to the number of tokens.\<close>

lemma Counter_sum: "sum_list (map snd (Counter xs)) = length xs"
  by (simp add: Counter_def foldl_counter_sum)

lemma counter_add_keys: "fst ` set (counter_add x c) = insert x (fst ` set c)"
  by (induction x c rule: counter_add.induct) auto

lemma counter_add_key:
  "(a, b) \<in> set (counter_add x c) \<Longrightarrow> a = x \<or> a \<in> fst ` set c"
  using counter_add_keys [of x c] by force

lemma counter_add_distinct: "distinct (map fst c) \<Longrightarrow> distinct (map fst (counter_add x c))"
  by (induction x c rule: counter_add.induct) (auto dest: counter_add_key)

lemma foldl_counter_keys:
  "fst ` set (foldl (\<lambda>c x. counter_add x c) c0 xs) = fst ` set c0 \<union> set xs"
  by (induction xs arbitrary: c0) (simp_all add: counter_add_keys)

lemma foldl_counter_distinct:
  "distinct (map fst c0) \<Longrightarrow> distinct (map fst (foldl (\<lambda>c x. counter_add x c) c0 xs))"
  by (induction xs arbitrary: c0) (auto simp: counter_add_distinct)

text \<open>The keys of the counter are the distinct tokens.\<close>

lemma Counter_keys: "fst ` set (Counter xs) = set xs \<and> distinct (map fst (Counter xs))"
  by (simp add: Counter_def foldl_counter_keys foldl_counter_distinct)

text \<open>A frame built from a dict of scalars never has a row.\<close>

lemma pd_DataFrame_columns_rows:
  "pd_DataFrame_columns d cols = Inr df \<Longrightarrow> df = (cols, [])"
  by (auto simp: pd_DataFrame_columns_def split: if_splits)

text \<open>Lines 130 and 131 raise \<open>ValueError\<close> on every counter.\<close>

lemma token_frequency_table_raises: "token_frequency_table c = Inl ValueError"
  by (simp add: token_frequency_table_def try_bind_def pd_DataFrame_columns_def
      pd_reset_index_def pd_value_counts_def)

lemma main_tables_raises:
  "main_tables L fs a m =
     (case main_counted L fs a m of Inl e \<Rightarrow> Inl e | Inr x \<Rightarrow> Inl ValueError)"
  by (simp add: main_tables_def try_bind_def token_frequency_table_raises
      split: sum.splits prod.splits)

lemma main_outcome:
  "main L fs a m =
     (case main_counted L fs a m of Inl e \<Rightarrow> (fs, Inl e) | Inr x \<Rightarrow> (fs, Inl ValueError))"
  by (simp add: main_def main_tables_raises split: sum.splits)

text \<open>\<open>main\<close> leaves every file as it was.\<close>

lemma main_leaves_files: "fst (main L fs a m) = fs"
  by (simp add: main_outcome split: sum.splits)


text \<open>
  Claim C5, at a failing input. For the single token \<open>cat\<close> the counter holds the count 1
  under the key \<open>cat\<close>, and the frame that line 130 builds from the counter with the
  columns \<open>token\<close> and \<open>frequency\<close> has no rows: the count is lost before the table is
  sorted, so no table whose frequencies add up to the number of tokens is built.
\<close>

theorem frequency_frame_has_no_rows:
  "Counter [''cat''] = [(''cat'', 1)]
   \<and> sum_list (map snd (Counter [''cat''])) = length [''cat'']
   \<and> pd_DataFrame_columns (Counter [''cat'']) [''token'', ''frequency'']
       = Inr ([''token'', ''frequency''], [])"
  by (simp add: Counter_def pd_DataFrame_columns_def)




end
